theory Spec2Isabelle
  imports Complex_Main "HOL-Library.Multiset"
begin

section \<open>Exceptions, JSON values and Python's dynamic operations\<close>

text \<open>
  A Python exception is its class and its message; \<open>str(e)\<close> is the message and may
  be the empty string (\<open>str(Exception())\<close> is \<open>''\<close>). Only subclasses of
  \<open>Exception\<close> are modelled: they are what \<open>except Exception\<close> catches.
\<close>

datatype exn_kind =
  ValueError | JSONDecodeError | AttributeError | TypeError | ValidationError | OtherError

datatype exn = Exn exn_kind string

fun str_exn :: "exn \<Rightarrow> string" where
  "str_exn (Exn k msg) = msg"

text \<open>
  What \<open>json.loads\<close> returns. An object is an association list read through
  \<open>map_of\<close>.
\<close>

datatype json =
  JNull | JBool bool | JInt int | JFloat real | JStr string
  | JArr "json list" | JObj "(string \<times> json) list"

text \<open>
  The text of an LLM reply is represented by what \<open>json.loads\<close> makes of it: a text
  that is no JSON document (kept as it is), or the document it denotes.
\<close>

datatype llm_reply = NotJson string | JsonDoc json

fun json_loads :: "llm_reply \<Rightarrow> exn + json" where
  "json_loads (NotJson s) = Inl (Exn JSONDecodeError ''Expecting value'')"
| "json_loads (JsonDoc j) = Inr j"

text \<open>Sequencing of computations that may raise: the first exception aborts.\<close>

fun and_then :: "exn + 'a \<Rightarrow> ('a \<Rightarrow> exn + 'b) \<Rightarrow> exn + 'b" where
  "and_then (Inl e) f = Inl e"
| "and_then (Inr x) f = f x"

fun for_each :: "('a \<Rightarrow> exn + 'b) \<Rightarrow> 'a list \<Rightarrow> exn + 'b list" where
  "for_each f [] = Inr []"
| "for_each f (x # xs) =
     and_then (f x) (\<lambda>y. and_then (for_each f xs) (\<lambda>ys. Inr (y # ys)))"

text \<open>\<open>d.get(k, default)\<close>: on a dict the value or the default, on anything else
  an AttributeError.\<close>

fun py_get :: "json \<Rightarrow> string \<Rightarrow> json \<Rightarrow> exn + json" where
  "py_get (JObj d) k dflt = Inr (case map_of d k of Some v \<Rightarrow> v | None \<Rightarrow> dflt)"
| "py_get j k dflt = Inl (Exn AttributeError ''object has no attribute get'')"

text \<open>\<open>for x in v\<close>: a list yields its items, a dict its keys, a string its
  characters; nothing else is iterable.\<close>

fun py_iter :: "json \<Rightarrow> exn + json list" where
  "py_iter (JArr xs) = Inr xs"
| "py_iter (JObj d) = Inr (map JStr (remdups (map fst d)))"
| "py_iter (JStr s) = Inr (map (\<lambda>c. JStr [c]) s)"
| "py_iter j = Inl (Exn TypeError ''object is not iterable'')"

text \<open>\<open>v[:5]\<close>: lists and strings are sliced, nothing else is.\<close>

fun py_slice5 :: "json \<Rightarrow> exn + json" where
  "py_slice5 (JArr xs) = Inr (JArr (take 5 xs))"
| "py_slice5 (JStr s) = Inr (JStr (take 5 s))"
| "py_slice5 j = Inl (Exn TypeError ''object is not subscriptable'')"

text \<open>Decimal digits of a number, as an f-string prints it.\<close>

fun str_nat :: "nat \<Rightarrow> string" where
  "str_nat n =
     (if n < 10 then [''0123456789'' ! n]
      else str_nat (n div 10) @ [''0123456789'' ! (n mod 10)])"

declare str_nat.simps [simp del]

definition str_int :: "int \<Rightarrow> string" where
  "str_int i = (if i < 0 then CHR ''-'' # str_nat (nat (- i)) else str_nat (nat i))"

section \<open>Data model (models/report.py)\<close>

text \<open>
  Modelled from the spec: models/report.py, which declares the Pydantic models, is not
  among the sources. The fields are those the agents pass to the constructors, with the
  types of section 3 of the specification. Fields the constructors are called without
  take their defaults: \<open>revision_count\<close> starts at 0, \<open>critic_review\<close> is optional
  and starts absent, \<open>iteration\<close> is 1-based. A value of another type than the
  field's is rejected with a ValidationError.
\<close>

record Source =
  title :: string
  url :: string
  snippet :: string
  score :: "real option"
  why_matters :: "string option"

record KeyFinding =
  finding :: string
  citations :: "string list"

record Subtopic =
  name :: string
  description :: string
  search_queries :: "string list"

record SubtopicFindings =
  subtopic :: string
  summary :: string
  key_insights :: "KeyFinding list"
  sources :: "Source list"
  researcher_notes :: string
  metadata :: "(string \<times> json) list"

record CriticIssue =
  category :: string
  severity :: string
  issue_description :: string
  location :: string
  suggestion :: string

record CriticReview =
  decision :: string
  overall_score :: int
  issues_found :: "CriticIssue list"
  strengths :: "string list"
  revision_instructions :: string
  iteration :: int

record MultiAgentReport =
  topic :: string
  subtopics :: "string list"
  executive_summary :: string
  subtopic_findings :: "SubtopicFindings list"
  overall_insights :: "KeyFinding list"
  consensus_points :: "string list"
  conflicts_and_gaps :: string
  all_sources :: "Source list"
  top_sources :: "Source list"
  revision_count :: int
  critic_review :: "CriticReview option"
  report_metadata :: "(string \<times> json) list"

fun as_str :: "json \<Rightarrow> exn + string" where
  "as_str (JStr s) = Inr s"
| "as_str j = Inl (Exn ValidationError ''Input should be a valid string'')"

fun as_str_list :: "json \<Rightarrow> exn + string list" where
  "as_str_list (JArr xs) = for_each as_str xs"
| "as_str_list j = Inl (Exn ValidationError ''Input should be a valid list'')"

fun as_int :: "json \<Rightarrow> exn + int" where
  "as_int (JInt i) = Inr i"
| "as_int j = Inl (Exn ValidationError ''Input should be a valid integer'')"

fun as_opt_float :: "json \<Rightarrow> exn + real option" where
  "as_opt_float JNull = Inr None"
| "as_opt_float (JInt i) = Inr (Some (real_of_int i))"
| "as_opt_float (JFloat x) = Inr (Some x)"
| "as_opt_float j = Inl (Exn ValidationError ''Input should be a valid number'')"

fun as_opt_str :: "json \<Rightarrow> exn + string option" where
  "as_opt_str JNull = Inr None"
| "as_opt_str (JStr s) = Inr (Some s)"
| "as_opt_str j = Inl (Exn ValidationError ''Input should be a valid string'')"

section \<open>The environment and the trace of a run\<close>

text \<open>
  The services outside the program are parameters. Each LLM is the function from what
  the agent sends to the reply it gets; the LLMs of the Critic and of the revision are
  asked repeatedly in one run, so their replies also depend on the number of earlier
  calls. A Researcher run is the value it returns or the exception it raises.
  \<open>as_completed\<close> is the order in which the thread pool finishes the submitted tasks;
  \<open>utcnow\<close> is the clock, read by the number of Synthesizer calls made so far.
  \<open>callback_raises\<close> is what the progress callback, when one is given, does at a
  call inside the collection loop of \<open>_research_in_parallel\<close>: it returns
  (\<open>None\<close>) or raises an exception; its first argument is the number of calls of the
  callback made before.
  The LLM services are taken to answer: a failing API call is outside the model.
\<close>

type_synonym future = "nat \<times> Subtopic \<times> (exn + SubtopicFindings)"

record env =
  splitter_llm :: "string \<Rightarrow> llm_reply"
  research_subtopic :: "string \<Rightarrow> Subtopic \<Rightarrow> string \<Rightarrow> exn + SubtopicFindings"
  as_completed :: "future list \<Rightarrow> future list"
  synthesizer_llm :: "string \<Rightarrow> SubtopicFindings list \<Rightarrow> string \<Rightarrow> string \<Rightarrow> llm_reply"
  revise_llm :: "nat \<Rightarrow> MultiAgentReport \<Rightarrow> string \<Rightarrow> string \<Rightarrow> string \<Rightarrow> llm_reply"
  critic_llm :: "nat \<Rightarrow> MultiAgentReport \<Rightarrow> llm_reply"
  utcnow :: "nat \<Rightarrow> string"
  callback_raises :: "nat \<Rightarrow> real \<Rightarrow> string \<Rightarrow> exn option"

text \<open>
  What a run leaves behind: the calls of the progress callback in order, and how often
  each agent was invoked.
\<close>

record world =
  progress_log :: "(real \<times> string) list"
  research_calls :: nat
  synthesize_calls :: nat
  revise_calls :: nat
  critic_calls :: nat

definition world0 :: world where
  "world0 = \<lparr>progress_log = [], research_calls = 0, synthesize_calls = 0,
             revise_calls = 0, critic_calls = 0\<rparr>"

text \<open>
  The fields of the orchestrator that its own control flow reads. The constructor
  creates the Critic exactly when \<open>enable_critic\<close> holds, so the test
  \<open>self.enable_critic and self.critic\<close> of \<open>run\<close> is the test of this flag.
\<close>

record config =
  model :: string
  enable_critic :: bool
  max_revisions :: int

text \<open>
  \<open>update_progress\<close>: the callback is optional (\<open>cb\<close> says whether one was given);
  a call of the callback is recorded with its arguments. Progress values are the real
  numbers that the floating-point expressions of the source denote.
  In \<open>run\<close>, \<open>_run_critic_loop\<close> and \<open>run_sequential\<close> the callback is called outside
  every try block: an exception of the callback there ends the run with that exception
  and without a report, and the model follows the runs in which the callback returns at
  those calls. Inside the collection loop of \<open>_research_in_parallel\<close> the callback is
  called within the try block, and there its exception is part of the model (see
  \<open>try_body\<close> and \<open>collect\<close>).
\<close>

definition update_progress :: "bool \<Rightarrow> real \<Rightarrow> string \<Rightarrow> world \<Rightarrow> world" where
  "update_progress cb progress message w =
     (if cb then w\<lparr>progress_log := progress_log w @ [(progress, message)]\<rparr> else w)"

section \<open>SynthesizerAgent (agents/synthesizer_agent.py)\<close>

definition parse_insight :: "json \<Rightarrow> exn + KeyFinding" where
  "parse_insight ins =
     and_then (py_get ins ''finding'' (JStr '''')) (\<lambda>f.
     and_then (py_get ins ''citations'' (JArr [])) (\<lambda>c.
     and_then (as_str f) (\<lambda>f'.
     and_then (as_str_list c) (\<lambda>c'.
     Inr \<lparr>finding = f', citations = c'\<rparr>))))"

definition parse_top_source :: "json \<Rightarrow> exn + Source" where
  "parse_top_source s =
     and_then (py_get s ''title'' (JStr '''')) (\<lambda>t.
     and_then (py_get s ''url'' (JStr '''')) (\<lambda>u.
     and_then (py_get s ''snippet'' (JStr '''')) (\<lambda>sn.
     and_then (py_get s ''score'' JNull) (\<lambda>sc.
     and_then (py_get s ''why_matters'' (JStr '''')) (\<lambda>wm.
     and_then (as_str t) (\<lambda>t'.
     and_then (as_str u) (\<lambda>u'.
     and_then (as_str sn) (\<lambda>sn'.
     and_then (as_opt_float sc) (\<lambda>sc'.
     and_then (as_opt_str wm) (\<lambda>wm'.
     Inr \<lparr>title = t', url = u', snippet = sn', score = sc', why_matters = wm'\<rparr>
     ))))))))))"

text \<open>\<open>all_sources.extend(findings.sources)\<close> for each findings in turn.\<close>

fun extend_all :: "Source list \<Rightarrow> SubtopicFindings list \<Rightarrow> Source list" where
  "extend_all acc [] = acc"
| "extend_all acc (f # fs) = extend_all (acc @ sources f) fs"

text \<open>The loop that removes duplicates by URL, with its set \<open>seen_urls\<close>.\<close>

fun unique_loop :: "string set \<Rightarrow> Source list \<Rightarrow> Source list \<Rightarrow> Source list" where
  "unique_loop seen_urls unique_sources [] = unique_sources"
| "unique_loop seen_urls unique_sources (s # rest) =
     (if url s \<notin> seen_urls
      then unique_loop (insert (url s) seen_urls) (unique_sources @ [s]) rest
      else unique_loop seen_urls unique_sources rest)"

definition build_report ::
  "string \<Rightarrow> string \<Rightarrow> string \<Rightarrow> SubtopicFindings list \<Rightarrow> json \<Rightarrow> exn + MultiAgentReport"
where
  "build_report mdl now tpc findings result_data =
     and_then (py_get result_data ''overall_insights'' (JArr [])) (\<lambda>oi.
     and_then (py_iter oi) (\<lambda>oi_items.
     and_then (for_each parse_insight oi_items) (\<lambda>insights.
     and_then (py_get result_data ''top_sources'' (JArr [])) (\<lambda>top_sources_data.
     and_then (py_slice5 top_sources_data) (\<lambda>first5.
     and_then (py_iter first5) (\<lambda>ts_items.
     and_then (for_each parse_top_source ts_items) (\<lambda>tops.
     let unique_sources = unique_loop {} [] (extend_all [] findings) in
     and_then (py_get result_data ''executive_summary'' (JStr '''')) (\<lambda>es.
     and_then (py_get result_data ''consensus_points'' (JArr [])) (\<lambda>cp.
     and_then (py_get result_data ''conflicts_and_gaps'' (JStr '''')) (\<lambda>cg.
     and_then (as_str es) (\<lambda>es'.
     and_then (as_str_list cp) (\<lambda>cp'.
     and_then (as_str cg) (\<lambda>cg'.
     Inr \<lparr>topic = tpc,
          subtopics = map subtopic findings,
          executive_summary = es',
          subtopic_findings = findings,
          overall_insights = insights,
          consensus_points = cp',
          conflicts_and_gaps = cg',
          all_sources = unique_sources,
          top_sources = tops,
          revision_count = 0,
          critic_review = None,
          report_metadata =
            [(''timestamp'', JStr now), (''model'', JStr mdl),
             (''num_researchers'', JInt (int (length findings))),
             (''total_sources'', JInt (int (length unique_sources)))]\<rparr>
     )))))))))))))"

definition synthesize ::
  "config \<Rightarrow> env \<Rightarrow> string \<Rightarrow> SubtopicFindings list \<Rightarrow> string \<Rightarrow> string \<Rightarrow> world
     \<Rightarrow> (exn + MultiAgentReport) \<times> world"
where
  "synthesize cfg ev tpc findings style tone w =
     (let result_text = synthesizer_llm ev tpc findings style tone;
          now = utcnow ev (synthesize_calls w + revise_calls w);
          w' = w\<lparr>synthesize_calls := synthesize_calls w + 1\<rparr>
      in (and_then (json_loads result_text) (build_report (model cfg) now tpc findings), w'))"

definition revise ::
  "config \<Rightarrow> env \<Rightarrow> MultiAgentReport \<Rightarrow> string \<Rightarrow> string \<Rightarrow> string \<Rightarrow> world
     \<Rightarrow> (exn + MultiAgentReport) \<times> world"
where
  "revise cfg ev report instructions style tone w =
     (let result_text = revise_llm ev (revise_calls w) report instructions style tone;
          now = utcnow ev (synthesize_calls w + revise_calls w);
          w' = w\<lparr>revise_calls := revise_calls w + 1\<rparr>
      in (and_then (json_loads result_text) (\<lambda>result_data.
          and_then (build_report (model cfg) now (topic report) (subtopic_findings report)
                      result_data) (\<lambda>revised_report.
          Inr (revised_report\<lparr>revision_count := revision_count report + 1\<rparr>))), w'))"

section \<open>CriticAgent (agents/critic_agent.py)\<close>

definition parse_issue :: "json \<Rightarrow> exn + CriticIssue" where
  "parse_issue issue_data =
     and_then (py_get issue_data ''category'' (JStr ''completeness'')) (\<lambda>c.
     and_then (py_get issue_data ''severity'' (JStr ''moderate'')) (\<lambda>sv.
     and_then (py_get issue_data ''description'' (JStr '''')) (\<lambda>d.
     and_then (py_get issue_data ''location'' (JStr '''')) (\<lambda>l.
     and_then (py_get issue_data ''suggestion'' (JStr '''')) (\<lambda>sg.
     and_then (as_str c) (\<lambda>c'.
     and_then (as_str sv) (\<lambda>sv'.
     and_then (as_str d) (\<lambda>d'.
     and_then (as_str l) (\<lambda>l'.
     and_then (as_str sg) (\<lambda>sg'.
     Inr \<lparr>category = c', severity = sv', issue_description = d', location = l',
          suggestion = sg'\<rparr>))))))))))"

definition parse_review :: "json \<Rightarrow> exn + CriticReview" where
  "parse_review result_data =
     and_then (py_get result_data ''issues_found'' (JArr [])) (\<lambda>is.
     and_then (py_iter is) (\<lambda>is_items.
     and_then (for_each parse_issue is_items) (\<lambda>issues.
     and_then (py_get result_data ''decision'' (JStr ''APPROVED'')) (\<lambda>dc.
     and_then (py_get result_data ''overall_score'' (JInt 7)) (\<lambda>sc.
     and_then (py_get result_data ''strengths'' (JArr [])) (\<lambda>st.
     and_then (py_get result_data ''revision_instructions'' (JStr '''')) (\<lambda>ri.
     and_then (as_str dc) (\<lambda>dc'.
     and_then (as_int sc) (\<lambda>sc'.
     and_then (as_str_list st) (\<lambda>st'.
     and_then (as_str ri) (\<lambda>ri'.
     Inr \<lparr>decision = dc', overall_score = sc', issues_found = issues, strengths = st',
          revision_instructions = ri', iteration = 1\<rparr>)))))))))))"

definition review ::
  "env \<Rightarrow> MultiAgentReport \<Rightarrow> world \<Rightarrow> (exn + CriticReview) \<times> world"
where
  "review ev report w =
     (let result_text = critic_llm ev (critic_calls w) report;
          w' = w\<lparr>critic_calls := critic_calls w + 1\<rparr>
      in (and_then (json_loads result_text) parse_review, w'))"

section \<open>TopicSplitterAgent (agents/topic_splitter.py)\<close>

definition parse_subtopic :: "json \<Rightarrow> exn + Subtopic" where
  "parse_subtopic st_data =
     and_then (py_get st_data ''name'' (JStr '''')) (\<lambda>n.
     and_then (py_get st_data ''description'' (JStr '''')) (\<lambda>d.
     and_then (py_get st_data ''search_queries'' (JArr [])) (\<lambda>q.
     and_then (as_str n) (\<lambda>n'.
     and_then (as_str d) (\<lambda>d'.
     and_then (as_str_list q) (\<lambda>q'.
     Inr \<lparr>name = n', description = d', search_queries = q'\<rparr>))))))"

text \<open>\<open>analyze_topic\<close> returns the dict with the keys \<open>analysis\<close> and
  \<open>subtopics\<close>, here the pair of their values.\<close>

definition analyze_topic :: "env \<Rightarrow> string \<Rightarrow> exn + (json \<times> Subtopic list)" where
  "analyze_topic ev tpc =
     and_then (json_loads (splitter_llm ev tpc)) (\<lambda>result_data.
     and_then (py_get result_data ''subtopics'' (JArr [])) (\<lambda>sts.
     and_then (py_iter sts) (\<lambda>st_items.
     and_then (for_each parse_subtopic st_items) (\<lambda>subtopics.
     and_then (py_get result_data ''main_topic_analysis'' (JStr '''')) (\<lambda>a.
     Inr (a, subtopics))))))"

section \<open>ResearcherAgent._parse_findings (agents/researcher_agent.py)\<close>








section \<open>MultiAgentOrchestrator (agents/orchestrator.py)\<close>

text \<open>The placeholder that stands for a Researcher that raised.\<close>

definition error_finding :: "Subtopic \<Rightarrow> exn \<Rightarrow> SubtopicFindings" where
  "error_finding st e =
     \<lparr>subtopic = name st,
      summary = ''Research failed: '' @ str_exn e,
      key_insights = [],
      sources = [],
      researcher_notes = ''Error during research: '' @ str_exn e,
      metadata = [(''error'', JStr (str_exn e))]\<rparr>"

text \<open>\<open>executor.submit\<close> for every subtopic with its index: a future is the index,
  the subtopic and what the Researcher run comes to.\<close>

definition submit_all :: "env \<Rightarrow> string \<Rightarrow> Subtopic list \<Rightarrow> future list" where
  "submit_all ev tpc sts =
     map (\<lambda>(i, st). (i, st, research_subtopic ev (''Researcher '' @ str_nat (i + 1)) st tpc))
       (enumerate 0 sts)"

text \<open>
  The body of the try block for one completed future. \<open>future.result()\<close> returns the
  findings or raises what the Researcher raised. A result is appended with its index and
  counted; then the callback, if one is given, is called, and it may raise as well. The
  value is the exception that left the body, if any, with the list, the counter and the
  trace as the body left them.
\<close>

fun try_body ::
  "env \<Rightarrow> bool \<Rightarrow> nat \<Rightarrow> future \<Rightarrow> (nat \<times> SubtopicFindings) list \<Rightarrow> nat \<Rightarrow> world
     \<Rightarrow> exn option \<times> (nat \<times> SubtopicFindings) list \<times> nat \<times> world"
where
  "try_body ev cb n (idx, st, Inl e) findings completed w = (Some e, findings, completed, w)"
| "try_body ev cb n (idx, st, Inr result) findings completed w =
     (if cb
      then (callback_raises ev (length (progress_log w))
              (0.2 + 0.6 * real (completed + 1) / real n)
              (''Completed research on: '' @ name st),
            findings @ [(idx, result)], completed + 1,
            update_progress cb (0.2 + 0.6 * real (completed + 1) / real n)
              (''Completed research on: '' @ name st) w)
      else (None, findings @ [(idx, result)], completed + 1, w))"

text \<open>
  The loop over \<open>as_completed\<close> with its \<open>except Exception\<close> clause: whatever
  exception leaves the body, of the Researcher or of the callback, the error placeholder
  of the subtopic is appended and counted. Every exception of the body is handled here,
  so the loop has no exceptional result.
\<close>

fun collect ::
  "env \<Rightarrow> bool \<Rightarrow> nat \<Rightarrow> future list \<Rightarrow> (nat \<times> SubtopicFindings) list \<Rightarrow> nat \<Rightarrow> world
     \<Rightarrow> (nat \<times> SubtopicFindings) list \<times> world"
where
  "collect ev cb n [] findings completed w = (findings, w)"
| "collect ev cb n ((idx, st, outcome) # rest) findings completed w =
     (case try_body ev cb n (idx, st, outcome) findings completed w of
        (None, findings', completed', w') \<Rightarrow> collect ev cb n rest findings' completed' w'
      | (Some e, findings', completed', w') \<Rightarrow>
          collect ev cb n rest (findings' @ [(idx, error_finding st e)]) (completed' + 1) w')"

definition research_in_parallel ::
  "env \<Rightarrow> string \<Rightarrow> Subtopic list \<Rightarrow> bool \<Rightarrow> world \<Rightarrow> SubtopicFindings list \<times> world"
where
  "research_in_parallel ev tpc sts cb w =
     (let futures = submit_all ev tpc sts;
          w1 = w\<lparr>research_calls := research_calls w + length sts\<rparr>;
          (findings, w2) = collect ev cb (length sts) (as_completed ev futures) [] 0 w1
      in (map snd (sort_key fst findings), w2))"

text \<open>The loop of \<open>_run_critic_loop\<close>, entered with \<open>iteration = it\<close>.\<close>

function critic_loop ::
  "config \<Rightarrow> env \<Rightarrow> string \<Rightarrow> string \<Rightarrow> bool \<Rightarrow> int \<Rightarrow> MultiAgentReport \<Rightarrow> world
     \<Rightarrow> (exn + MultiAgentReport) \<times> world"
where
  "critic_loop cfg ev style tone cb it current_report w =
     (if it < max_revisions cfg then
        (let it' = it + 1;
             w1 = update_progress cb
                    (0.8 + 0.15 * real_of_int it' / real_of_int (max_revisions cfg + 1))
                    (''Critic reviewing report (iteration '' @ str_int it' @ '')...'') w
         in case review ev current_report w1 of
              (Inl e, w2) \<Rightarrow> (Inl e, w2)
            | (Inr rv0, w2) \<Rightarrow>
                (let rv = rv0\<lparr>iteration := it'\<rparr> in
                 if decision rv = ''APPROVED'' then
                   (Inr (current_report\<lparr>critic_review := Some rv\<rparr>),
                    update_progress cb 0.95
                      (''Report approved by critic (score: '' @ str_int (overall_score rv)
                         @ ''/10)'') w2)
                 else if decision rv = ''REVISION_NEEDED'' then
                   (if it' \<ge> max_revisions cfg then
                      (Inr (current_report\<lparr>critic_review := Some rv\<rparr>),
                       update_progress cb 0.95
                         (''Max revisions reached. Final score: ''
                            @ str_int (overall_score rv) @ ''/10'') w2)
                    else
                      (let w3 = update_progress cb
                                  (0.8 + 0.15 * real_of_int it'
                                     / real_of_int (max_revisions cfg + 1))
                                  ''Revising report based on critic feedback...'' w2
                       in case revise cfg ev current_report (revision_instructions rv)
                                 style tone w3 of
                            (Inl e, w4) \<Rightarrow> (Inl e, w4)
                          | (Inr revised, w4) \<Rightarrow>
                              critic_loop cfg ev style tone cb it' revised w4))
                 else critic_loop cfg ev style tone cb it' current_report w2))
      else (Inr current_report, w))"
  by pat_completeness auto
termination
  by (relation "measure (\<lambda>(cfg, ev, style, tone, cb, it, r, w). nat (max_revisions cfg - it))")
     auto

declare critic_loop.simps [simp del]

definition run_critic_loop ::
  "config \<Rightarrow> env \<Rightarrow> MultiAgentReport \<Rightarrow> string \<Rightarrow> string \<Rightarrow> bool \<Rightarrow> world
     \<Rightarrow> (exn + MultiAgentReport) \<times> world"
where
  "run_critic_loop cfg ev report style tone cb w = critic_loop cfg ev style tone cb 0 report w"

definition run ::
  "config \<Rightarrow> env \<Rightarrow> string \<Rightarrow> string \<Rightarrow> string \<Rightarrow> bool \<Rightarrow> world
     \<Rightarrow> (exn + MultiAgentReport) \<times> world"
where
  "run cfg ev tpc style tone cb w =
     (let w1 = update_progress cb 0.1 ''Analyzing topic and generating subtopics...'' w in
      case analyze_topic ev tpc of
        Inl e \<Rightarrow> (Inl e, w1)
      | Inr (analysis, sts) \<Rightarrow>
          if sts = [] then
            (Inl (Exn ValueError ''Topic splitter failed to generate subtopics''), w1)
          else
            (let w2 = update_progress cb 0.2
                        (''Generated '' @ str_nat (length sts)
                           @ '' subtopics. Starting research...'') w1;
                 (findings, w3) = research_in_parallel ev tpc sts cb w2;
                 w4 = update_progress cb 0.7 ''Synthesizing findings into final report...'' w3
             in case synthesize cfg ev tpc findings style tone w4 of
                  (Inl e, w5) \<Rightarrow> (Inl e, w5)
                | (Inr report, w5) \<Rightarrow>
                    (case (if enable_critic cfg
                           then run_critic_loop cfg ev report style tone cb w5
                           else (Inr report, w5)) of
                       (Inl e, w6) \<Rightarrow> (Inl e, w6)
                     | (Inr final, w6) \<Rightarrow>
                         (Inr final, update_progress cb 1.0 ''Research complete!'' w6))))"

text \<open>The loop of \<open>run_sequential\<close>: one Researcher after the other; an exception
  of a Researcher is not caught here.\<close>

fun research_sequentially ::
  "env \<Rightarrow> string \<Rightarrow> bool \<Rightarrow> nat \<Rightarrow> (nat \<times> Subtopic) list \<Rightarrow> SubtopicFindings list \<Rightarrow> world
     \<Rightarrow> (exn + SubtopicFindings list) \<times> world"
where
  "research_sequentially ev tpc cb n [] collected w = (Inr collected, w)"
| "research_sequentially ev tpc cb n ((i, st) # rest) collected w =
     (let w1 = update_progress cb (0.2 + 0.6 * real i / real n)
                 (''Researching: '' @ name st) w;
          w2 = w1\<lparr>research_calls := research_calls w1 + 1\<rparr>
      in case research_subtopic ev (''Researcher '' @ str_nat (i + 1)) st tpc of
           Inl e \<Rightarrow> (Inl e, w2)
         | Inr findings \<Rightarrow>
             research_sequentially ev tpc cb n rest (collected @ [findings]) w2)"

definition run_sequential ::
  "config \<Rightarrow> env \<Rightarrow> string \<Rightarrow> string \<Rightarrow> string \<Rightarrow> bool \<Rightarrow> world
     \<Rightarrow> (exn + MultiAgentReport) \<times> world"
where
  "run_sequential cfg ev tpc style tone cb w =
     (let w1 = update_progress cb 0.1 ''Analyzing topic...'' w in
      case analyze_topic ev tpc of
        Inl e \<Rightarrow> (Inl e, w1)
      | Inr (analysis, sts) \<Rightarrow>
          (case research_sequentially ev tpc cb (length sts) (enumerate 0 sts) [] w1 of
             (Inl e, w2) \<Rightarrow> (Inl e, w2)
           | (Inr findings, w2) \<Rightarrow>
               (let w3 = update_progress cb 0.8 ''Synthesizing...'' w2 in
                case synthesize cfg ev tpc findings style tone w3 of
                  (Inl e, w4) \<Rightarrow> (Inl e, w4)
                | (Inr report, w4) \<Rightarrow>
                    (Inr report, update_progress cb 1.0 ''Complete!'' w4))))"

section \<open>Notions used to state the properties\<close>

text \<open>
  The specification's words for \<open>all_sources\<close>: of the sources in encounter order,
  each is kept unless an earlier one has its URL.
\<close>

fun first_by_url :: "Source list \<Rightarrow> Source list" where
  "first_by_url [] = []"
| "first_by_url (s # rest) = s # first_by_url (filter (\<lambda>t. url t \<noteq> url s) rest)"

text \<open>What the task of one subtopic comes to in the batch: the findings its Researcher
  returned, or the placeholder for the exception it raised.\<close>

definition task_finding :: "future \<Rightarrow> SubtopicFindings" where
  "task_finding fu =
     (case fu of (idx, st, Inr result) \<Rightarrow> result | (idx, st, Inl e) \<Rightarrow> error_finding st e)"

text \<open>The two progress reports of an iteration of the critic loop that starts with
  \<open>iteration = it\<close>.\<close>

definition review_progress :: "config \<Rightarrow> bool \<Rightarrow> int \<Rightarrow> world \<Rightarrow> world" where
  "review_progress cfg cb it w =
     update_progress cb (0.8 + 0.15 * real_of_int (it + 1) / real_of_int (max_revisions cfg + 1))
       (''Critic reviewing report (iteration '' @ str_int (it + 1) @ '')...'') w"

definition revise_progress :: "config \<Rightarrow> bool \<Rightarrow> int \<Rightarrow> world \<Rightarrow> world" where
  "revise_progress cfg cb it w =
     update_progress cb (0.8 + 0.15 * real_of_int (it + 1) / real_of_int (max_revisions cfg + 1))
       ''Revising report based on critic feedback...'' w"



text \<open>\<open>d.get(k, default)\<close> on the dict that an association list stands for.\<close>

definition dict_get :: "(string \<times> json) list \<Rightarrow> string \<Rightarrow> json \<Rightarrow> json" where
  "dict_get kvs k dflt = (case map_of kvs k of Some v \<Rightarrow> v | None \<Rightarrow> dflt)"

section \<open>Example inputs\<close>

definition ex_source :: "string \<Rightarrow> Source" where
  "ex_source u = \<lparr>title = ''A source'', url = u, snippet = ''...'', score = None,
                  why_matters = None\<rparr>"

definition ex_findings :: "string \<Rightarrow> SubtopicFindings" where
  "ex_findings n =
     \<lparr>subtopic = n, summary = ''Summary'', key_insights = [],
      sources = [ex_source ''https://shared.example'', ex_source n],
      researcher_notes = '''', metadata = []\<rparr>"

text \<open>
  A Splitter that returns two subtopics, Researchers that succeed and finish in the
  reverse of the order of submission, a Synthesizer whose replies are the empty
  object, a Critic that asks for a revision every time, and a callback that returns.
\<close>

definition ex_env :: env where
  "ex_env =
     \<lparr>splitter_llm = (\<lambda>tpc. JsonDoc (JObj [(''subtopics'',
         JArr [JObj [(''name'', JStr ''Battery chemistry'')],
               JObj [(''name'', JStr ''Cost trends'')]])])),
      research_subtopic = (\<lambda>agent_id st tpc. Inr (ex_findings (name st))),
      as_completed = rev,
      synthesizer_llm = (\<lambda>tpc fs style tone. JsonDoc (JObj [])),
      revise_llm = (\<lambda>k r ins style tone. JsonDoc (JObj [])),
      critic_llm = (\<lambda>k r. JsonDoc (JObj [(''decision'', JStr ''REVISION_NEEDED'')])),
      utcnow = (\<lambda>k. ''2025-01-01T00:00:00''),
      callback_raises = (\<lambda>k p m. None)\<rparr>"

definition ex_cfg :: "int \<Rightarrow> config" where
  "ex_cfg n = \<lparr>model = ''gpt-4-turbo-preview'', enable_critic = True, max_revisions = n\<rparr>"

definition ex_report :: MultiAgentReport where
  "ex_report =
     \<lparr>topic = ''Renewable energy storage'',
      subtopics = [''Battery chemistry''],
      executive_summary = ''Summary'',
      subtopic_findings = [ex_findings ''Battery chemistry''],
      overall_insights = [],
      consensus_points = [],
      conflicts_and_gaps = '''',
      all_sources = sources (ex_findings ''Battery chemistry''),
      top_sources = [],
      revision_count = 0,
      critic_review = None,
      report_metadata = []\<rparr>"

definition ex_subtopics :: "Subtopic list" where
  "ex_subtopics =
     [\<lparr>name = ''Battery chemistry'', description = '''', search_queries = []\<rparr>,
      \<lparr>name = ''Cost trends'', description = '''', search_queries = []\<rparr>]"


text \<open>The Researcher of the second subtopic raises an exception without a message.\<close>

definition ex_env_failing :: env where
  "ex_env_failing =
     ex_env\<lparr>research_subtopic := (\<lambda>agent_id st tpc.
        if name st = ''Cost trends'' then Inl (Exn OtherError '''')
        else Inr (ex_findings (name st)))\<rparr>"


text \<open>The Splitter returns no subtopic.\<close>

definition ex_env_no_subtopics :: env where
  "ex_env_no_subtopics =
     ex_env\<lparr>splitter_llm := (\<lambda>tpc. JsonDoc (JObj [(''subtopics'', JArr [])]))\<rparr>"

text \<open>A callback that raises at its third call, the first one in the collection loop.\<close>

definition ex_env_callback_fails :: env where
  "ex_env_callback_fails =
     ex_env\<lparr>callback_raises := (\<lambda>k p m.
        if k = 2 then Some (Exn OtherError ''progress bar closed'') else None)\<rparr>"


text \<open>A clock that ticks with every call of the Synthesizer.\<close>

definition ex_env_clock :: env where
  "ex_env_clock = ex_env\<lparr>utcnow := (\<lambda>k. ''2025-01-01T00:00:0'' @ str_nat k)\<rparr>"

text \<open>The report that \<open>synthesize\<close> returns for one subtopic under that clock.\<close>

definition ex_fresh_report :: MultiAgentReport where
  "ex_fresh_report =
     \<lparr>topic = ''Renewable energy storage'',
      subtopics = [''Battery chemistry''],
      executive_summary = '''',
      subtopic_findings = [ex_findings ''Battery chemistry''],
      overall_insights = [],
      consensus_points = [],
      conflicts_and_gaps = '''',
      all_sources = sources (ex_findings ''Battery chemistry''),
      top_sources = [],
      revision_count = 0,
      critic_review = None,
      report_metadata =
        [(''timestamp'', JStr ''2025-01-01T00:00:00''), (''model'', JStr ''gpt-4-turbo-preview''),
         (''num_researchers'', JInt 1), (''total_sources'', JInt 2)]\<rparr>"

definition ex_review :: CriticReview where
  "ex_review =
     \<lparr>decision = ''REVISION_NEEDED'', overall_score = 5, issues_found = [], strengths = [],
      revision_instructions = ''Cite more sources'', iteration = 2\<rparr>"

text \<open>The LLM of the revision replies with a new summary, a consensus point and a top source.\<close>

definition ex_env_revising :: env where
  "ex_env_revising =
     ex_env_clock\<lparr>revise_llm := (\<lambda>k r ins style tone. JsonDoc (JObj
        [(''executive_summary'', JStr ''Revised summary''),
         (''consensus_points'', JArr [JStr ''Costs fall'']),
         (''top_sources'', JArr [JObj [(''url'', JStr ''https://shared.example'')]])]))\<rparr>"

section \<open>Properties\<close>

lemma extend_all_concat: "extend_all acc fs = acc @ concat (map sources fs)"
  by (induction fs arbitrary: acc) simp_all

lemma unique_loop_first_by_url:
  "unique_loop seen acc xs = acc @ first_by_url (filter (\<lambda>s. url s \<notin> seen) xs)"
proof (induction xs arbitrary: seen acc)
  case Nil
  then show ?case by simp
next
  case (Cons s rest)
  have "filter (\<lambda>t. url t \<noteq> url s) (filter (\<lambda>t. url t \<notin> seen) rest)
        = filter (\<lambda>t. url t \<notin> insert (url s) seen) rest"
    by (induction rest) auto
  with Cons show ?case by simp
qed

lemma set_first_by_url: "url ` set (first_by_url xs) = url ` set xs"
proof (induction xs rule: first_by_url.induct)
  case 1
  then show ?case by simp
next
  case (2 s rest)
  then show ?case by auto
qed

lemma distinct_first_by_url: "distinct (map url (first_by_url xs))"
proof (induction xs rule: first_by_url.induct)
  case 1
  then show ?case by simp
next
  case (2 s rest)
  have "url s \<notin> url ` set (first_by_url (filter (\<lambda>t. url t \<noteq> url s) rest))"
    unfolding set_first_by_url by auto
  with 2 show ?case by simp
qed

lemma first_by_url_is_first:
  "s \<in> set (first_by_url xs) \<Longrightarrow> find (\<lambda>t. url t = url s) xs = Some s"
proof (induction xs rule: first_by_url.induct)
  case 1
  then show ?case by simp
next
  case (2 x rest)
  show ?case
  proof (cases "s = x")
    case True
    then show ?thesis by simp
  next
    case False
    with 2 have mem: "s \<in> set (first_by_url (filter (\<lambda>t. url t \<noteq> url x) rest))" by simp
    then have "url s \<in> url ` set (filter (\<lambda>t. url t \<noteq> url x) rest)"
      using set_first_by_url by blast
    then have ne: "url x \<noteq> url s" by auto
    have "find (\<lambda>t. url t = url s) (filter (\<lambda>t. url t \<noteq> url x) rest)
          = find (\<lambda>t. url t = url s) rest"
      using ne by (induction rest) auto
    with 2 mem ne show ?thesis by simp
  qed
qed

lemma and_then_Inr_iff: "and_then m f = Inr r \<longleftrightarrow> (\<exists>x. m = Inr x \<and> f x = Inr r)"
  by (cases m) simp_all

lemma build_report_fields:
  assumes "build_report mdl now tpc findings d = Inr r"
  shows "topic r = tpc \<and> subtopic_findings r = findings \<and> subtopics r = map subtopic findings
         \<and> all_sources r = unique_loop {} [] (extend_all [] findings)
         \<and> revision_count r = 0 \<and> critic_review r = None"
  using assms unfolding build_report_def Let_def and_then_Inr_iff by auto

lemma critic_loop_exit:
  "\<not> it < max_revisions cfg \<Longrightarrow> critic_loop cfg ev style tone cb it r w = (Inr r, w)"
  by (subst critic_loop.simps) simp

lemma critic_loop_raise:
  assumes "it < max_revisions cfg"
      and "review ev r (review_progress cfg cb it w) = (Inl e, w2)"
  shows "critic_loop cfg ev style tone cb it r w = (Inl e, w2)"
  using assms by (subst critic_loop.simps) (simp add: review_progress_def Let_def)

lemma critic_loop_approved:
  assumes "it < max_revisions cfg"
      and "review ev r (review_progress cfg cb it w) = (Inr rv, w2)"
      and "decision rv = ''APPROVED''"
  shows "critic_loop cfg ev style tone cb it r w =
           (Inr (r\<lparr>critic_review := Some (rv\<lparr>iteration := it + 1\<rparr>)\<rparr>),
            update_progress cb 0.95
              (''Report approved by critic (score: '' @ str_int (overall_score rv) @ ''/10)'') w2)"
  using assms by (subst critic_loop.simps) (simp add: review_progress_def Let_def)

lemma critic_loop_exhausted:
  assumes "it < max_revisions cfg"
      and "review ev r (review_progress cfg cb it w) = (Inr rv, w2)"
      and "decision rv = ''REVISION_NEEDED''"
      and "it + 1 \<ge> max_revisions cfg"
  shows "critic_loop cfg ev style tone cb it r w =
           (Inr (r\<lparr>critic_review := Some (rv\<lparr>iteration := it + 1\<rparr>)\<rparr>),
            update_progress cb 0.95
              (''Max revisions reached. Final score: '' @ str_int (overall_score rv) @ ''/10'') w2)"
  using assms by (subst critic_loop.simps) (simp add: review_progress_def Let_def)

lemma critic_loop_revise:
  assumes "it < max_revisions cfg"
      and "review ev r (review_progress cfg cb it w) = (Inr rv, w2)"
      and "decision rv = ''REVISION_NEEDED''"
      and "it + 1 < max_revisions cfg"
  shows "critic_loop cfg ev style tone cb it r w =
           (case revise cfg ev r (revision_instructions rv) style tone
                   (revise_progress cfg cb it w2) of
              (Inl e, w4) \<Rightarrow> (Inl e, w4)
            | (Inr revised, w4) \<Rightarrow> critic_loop cfg ev style tone cb (it + 1) revised w4)"
  using assms by (subst critic_loop.simps) (simp add: review_progress_def revise_progress_def Let_def)

lemma critic_loop_other:
  assumes "it < max_revisions cfg"
      and "review ev r (review_progress cfg cb it w) = (Inr rv, w2)"
      and "decision rv \<noteq> ''APPROVED''" and "decision rv \<noteq> ''REVISION_NEEDED''"
  shows "critic_loop cfg ev style tone cb it r w = critic_loop cfg ev style tone cb (it + 1) r w2"
  using assms by (subst critic_loop.simps) (simp add: review_progress_def Let_def)

lemma update_progress_counters [simp]:
  "research_calls (update_progress cb p m w) = research_calls w"
  "synthesize_calls (update_progress cb p m w) = synthesize_calls w"
  "revise_calls (update_progress cb p m w) = revise_calls w"
  "critic_calls (update_progress cb p m w) = critic_calls w"
  by (simp_all add: update_progress_def)

lemma review_progress_counters [simp]:
  "research_calls (review_progress cfg cb it w) = research_calls w"
  "synthesize_calls (review_progress cfg cb it w) = synthesize_calls w"
  "revise_calls (review_progress cfg cb it w) = revise_calls w"
  "critic_calls (review_progress cfg cb it w) = critic_calls w"
  by (simp_all add: review_progress_def)

lemma revise_progress_counters [simp]:
  "research_calls (revise_progress cfg cb it w) = research_calls w"
  "synthesize_calls (revise_progress cfg cb it w) = synthesize_calls w"
  "revise_calls (revise_progress cfg cb it w) = revise_calls w"
  "critic_calls (revise_progress cfg cb it w) = critic_calls w"
  by (simp_all add: revise_progress_def)



lemma snd_synthesize:
  "snd (synthesize cfg ev tpc fs style tone w) = w\<lparr>synthesize_calls := synthesize_calls w + 1\<rparr>"
  by (simp add: synthesize_def Let_def)

lemma revise_result:
  assumes "revise cfg ev report ins style tone w = (Inr r', w')"
  shows "\<exists>d r0. json_loads (revise_llm ev (revise_calls w) report ins style tone) = Inr d
           \<and> build_report (model cfg) (utcnow ev (synthesize_calls w + revise_calls w))
                (topic report) (subtopic_findings report) d = Inr r0
           \<and> r' = r0\<lparr>revision_count := revision_count report + 1\<rparr>"
  using assms unfolding revise_def Let_def by (auto simp: and_then_Inr_iff)


lemma py_get_dict: "py_get (JObj kvs) k dflt = Inr (dict_get kvs k dflt)"
  by (simp add: dict_get_def)

lemma as_str_Inr: "as_str j = Inr s \<longleftrightarrow> j = JStr s"
  by (cases j) auto

lemma for_each_as_str: "for_each as_str xs = Inr ys \<Longrightarrow> xs = map JStr ys"
proof (induction xs arbitrary: ys)
  case Nil
  then show ?case by simp
next
  case (Cons x xs)
  then show ?case by (auto simp: and_then_Inr_iff as_str_Inr)
qed

lemma as_str_list_Inr: "as_str_list j = Inr ys \<Longrightarrow> j = JArr (map JStr ys)"
  by (cases j) (auto dest: for_each_as_str)

lemma build_report_reply:
  assumes "build_report mdl now tpc findings d = Inr r"
  shows "\<exists>kvs. d = JObj kvs
           \<and> dict_get kvs ''executive_summary'' (JStr '''') = JStr (executive_summary r)
           \<and> dict_get kvs ''consensus_points'' (JArr []) = JArr (map JStr (consensus_points r))
           \<and> dict_get kvs ''conflicts_and_gaps'' (JStr '''') = JStr (conflicts_and_gaps r)
           \<and> (\<forall>xs. dict_get kvs ''overall_insights'' (JArr []) = JArr xs \<longrightarrow>
                  for_each parse_insight xs = Inr (overall_insights r))
           \<and> (\<forall>xs. dict_get kvs ''top_sources'' (JArr []) = JArr xs \<longrightarrow>
                  for_each parse_top_source (take 5 xs) = Inr (top_sources r))"
proof (cases d)
  case (JObj kvs)
  from assms obtain ins tops es cp cg where
    i: "and_then (py_iter (dict_get kvs ''overall_insights'' (JArr []))) (for_each parse_insight)
          = Inr ins" and
    t: "and_then (py_slice5 (dict_get kvs ''top_sources'' (JArr [])))
          (\<lambda>x. and_then (py_iter x) (for_each parse_top_source)) = Inr tops" and
    e: "as_str (dict_get kvs ''executive_summary'' (JStr '''')) = Inr es" and
    c: "as_str_list (dict_get kvs ''consensus_points'' (JArr [])) = Inr cp" and
    g: "as_str (dict_get kvs ''conflicts_and_gaps'' (JStr '''')) = Inr cg" and
    r: "overall_insights r = ins" "top_sources r = tops" "executive_summary r = es"
       "consensus_points r = cp" "conflicts_and_gaps r = cg"
    unfolding JObj build_report_def Let_def py_get_dict and_then.simps and_then_Inr_iff
    by auto
  have 1: "dict_get kvs ''executive_summary'' (JStr '''') = JStr (executive_summary r)"
    using e r by (simp add: as_str_Inr)
  have 2: "dict_get kvs ''consensus_points'' (JArr []) = JArr (map JStr (consensus_points r))"
    using c r by (simp add: as_str_list_Inr)
  have 3: "dict_get kvs ''conflicts_and_gaps'' (JStr '''') = JStr (conflicts_and_gaps r)"
    using g r by (simp add: as_str_Inr)
  have 4: "\<forall>xs. dict_get kvs ''overall_insights'' (JArr []) = JArr xs \<longrightarrow>
                  for_each parse_insight xs = Inr (overall_insights r)"
    using i r by auto
  have 5: "\<forall>xs. dict_get kvs ''top_sources'' (JArr []) = JArr xs \<longrightarrow>
                  for_each parse_top_source (take 5 xs) = Inr (top_sources r)"
    using t r by auto
  from JObj 1 2 3 4 5 show ?thesis by (intro exI conjI)
qed (use assms in \<open>simp_all add: build_report_def\<close>)

lemma build_report_metadata:
  assumes "build_report mdl now tpc findings d = Inr r"
  shows "report_metadata r =
           [(''timestamp'', JStr now), (''model'', JStr mdl),
            (''num_researchers'', JInt (int (length findings))),
            (''total_sources'', JInt (int (length (all_sources r))))]"
  using assms unfolding build_report_def Let_def and_then_Inr_iff by auto

text \<open>
  Claim C8, as amended. Whatever the report and the revision instructions, a report that
  \<open>SynthesizerAgent.revise\<close> returns has the topic and the subtopic findings of its
  input and a revision count one higher. The executive summary, the insights, the
  consensus points, the conflicts and gaps and the top sources are those of the new reply
  of the LLM (a missing one its default, at most five top sources). These are not the only
  fields rebuilt: \<open>subtopics\<close> and \<open>all_sources\<close> are computed again from the
  unchanged findings, \<open>critic_review\<close> is absent whatever the input had, and the
  metadata is new, with the time of the revision.
\<close>

theorem revise_frame:
  assumes "revise cfg ev report ins style tone w = (Inr r', w')"
  shows "topic r' = topic report
       \<and> subtopic_findings r' = subtopic_findings report
       \<and> revision_count r' = revision_count report + 1
       \<and> subtopics r' = map subtopic (subtopic_findings report)
       \<and> all_sources r' = first_by_url (concat (map sources (subtopic_findings report)))
       \<and> critic_review r' = None
       \<and> report_metadata r' =
            [(''timestamp'', JStr (utcnow ev (synthesize_calls w + revise_calls w))),
             (''model'', JStr (model cfg)),
             (''num_researchers'', JInt (int (length (subtopic_findings report)))),
             (''total_sources'', JInt (int (length (all_sources r'))))]
       \<and> (\<exists>kvs. revise_llm ev (revise_calls w) report ins style tone = JsonDoc (JObj kvs)
            \<and> dict_get kvs ''executive_summary'' (JStr '''') = JStr (executive_summary r')
            \<and> dict_get kvs ''consensus_points'' (JArr [])
                 = JArr (map JStr (consensus_points r'))
            \<and> dict_get kvs ''conflicts_and_gaps'' (JStr '''') = JStr (conflicts_and_gaps r')
            \<and> (\<forall>xs. dict_get kvs ''overall_insights'' (JArr []) = JArr xs \<longrightarrow>
                   for_each parse_insight xs = Inr (overall_insights r'))
            \<and> (\<forall>xs. dict_get kvs ''top_sources'' (JArr []) = JArr xs \<longrightarrow>
                   for_each parse_top_source (take 5 xs) = Inr (top_sources r')))"
proof -
  from revise_result [OF assms] obtain d r0 where
    d: "json_loads (revise_llm ev (revise_calls w) report ins style tone) = Inr d" and
    b: "build_report (model cfg) (utcnow ev (synthesize_calls w + revise_calls w))
          (topic report) (subtopic_findings report) d = Inr r0" and
    r: "r' = r0\<lparr>revision_count := revision_count report + 1\<rparr>"
    by blast
  from build_report_fields [OF b] r have f:
    "topic r' = topic report" "subtopic_findings r' = subtopic_findings report"
    "revision_count r' = revision_count report + 1"
    "subtopics r' = map subtopic (subtopic_findings report)"
    "all_sources r' = first_by_url (concat (map sources (subtopic_findings report)))"
    "critic_review r' = None"
    by (simp_all add: unique_loop_first_by_url extend_all_concat)
  from build_report_metadata [OF b] r have m:
    "report_metadata r' =
            [(''timestamp'', JStr (utcnow ev (synthesize_calls w + revise_calls w))),
             (''model'', JStr (model cfg)),
             (''num_researchers'', JInt (int (length (subtopic_findings report)))),
             (''total_sources'', JInt (int (length (all_sources r'))))]"
    by simp
  from build_report_reply [OF b] obtain kvs where k: "d = JObj kvs"
    and e: "dict_get kvs ''executive_summary'' (JStr '''') = JStr (executive_summary r0)"
           "dict_get kvs ''consensus_points'' (JArr []) = JArr (map JStr (consensus_points r0))"
           "dict_get kvs ''conflicts_and_gaps'' (JStr '''') = JStr (conflicts_and_gaps r0)"
           "\<forall>xs. dict_get kvs ''overall_insights'' (JArr []) = JArr xs \<longrightarrow>
                   for_each parse_insight xs = Inr (overall_insights r0)"
           "\<forall>xs. dict_get kvs ''top_sources'' (JArr []) = JArr xs \<longrightarrow>
                   for_each parse_top_source (take 5 xs) = Inr (top_sources r0)"
    by blast
  have reply: "revise_llm ev (revise_calls w) report ins style tone = JsonDoc (JObj kvs)"
    using d k by (cases "revise_llm ev (revise_calls w) report ins style tone") simp_all
  have e': "dict_get kvs ''executive_summary'' (JStr '''') = JStr (executive_summary r')"
           "dict_get kvs ''consensus_points'' (JArr []) = JArr (map JStr (consensus_points r'))"
           "dict_get kvs ''conflicts_and_gaps'' (JStr '''') = JStr (conflicts_and_gaps r')"
           "\<forall>xs. dict_get kvs ''overall_insights'' (JArr []) = JArr xs \<longrightarrow>
                   for_each parse_insight xs = Inr (overall_insights r')"
           "\<forall>xs. dict_get kvs ''top_sources'' (JArr []) = JArr xs \<longrightarrow>
                   for_each parse_top_source (take 5 xs) = Inr (top_sources r')"
    using e r by simp_all
  have last: "\<exists>kvs. revise_llm ev (revise_calls w) report ins style tone = JsonDoc (JObj kvs)
            \<and> dict_get kvs ''executive_summary'' (JStr '''') = JStr (executive_summary r')
            \<and> dict_get kvs ''consensus_points'' (JArr [])
                 = JArr (map JStr (consensus_points r'))
            \<and> dict_get kvs ''conflicts_and_gaps'' (JStr '''') = JStr (conflicts_and_gaps r')
            \<and> (\<forall>xs. dict_get kvs ''overall_insights'' (JArr []) = JArr xs \<longrightarrow>
                   for_each parse_insight xs = Inr (overall_insights r'))
            \<and> (\<forall>xs. dict_get kvs ''top_sources'' (JArr []) = JArr xs \<longrightarrow>
                   for_each parse_top_source (take 5 xs) = Inr (top_sources r'))"
    using reply e' by (intro exI conjI)
  from f m last show ?thesis by (intro conjI)
qed

lemma synthesize_result:
  assumes "synthesize cfg ev tpc fs style tone w = (Inr r, w')"
  shows "topic r = tpc \<and> subtopic_findings r = fs \<and> revision_count r = 0
         \<and> critic_review r = None"
  using assms build_report_fields unfolding synthesize_def Let_def
  by (auto simp: and_then_Inr_iff)



lemma try_body_callback_returns:
  assumes "cb \<longrightarrow> (\<forall>k p m. callback_raises ev k p m = None)"
  shows "try_body ev cb n (idx, st, Inr result) findings completed w =
           (None, findings @ [(idx, result)], completed + 1,
            update_progress cb (0.2 + 0.6 * real (completed + 1) / real n)
              (''Completed research on: '' @ name st) w)"
  using assms by (simp add: update_progress_def)

lemma collect_findings:
  assumes "cb \<longrightarrow> (\<forall>k p m. callback_raises ev k p m = None)"
  shows "fst (collect ev cb n fs acc c w) = acc @ map (\<lambda>fu. (fst fu, task_finding fu)) fs"
proof (induction fs arbitrary: acc c w)
  case Nil
  then show ?case by simp
next
  case (Cons fu fs)
  obtain idx st outcome where fu: "fu = (idx, st, outcome)" by (cases fu)
  show ?case
  proof (cases outcome)
    case (Inl e)
    with fu Cons show ?thesis by (simp add: task_finding_def)
  next
    case (Inr result)
    with fu Cons try_body_callback_returns [OF assms] show ?thesis
      by (simp add: task_finding_def del: try_body.simps)
  qed
qed

lemma filter_key_singleton:
  "distinct (map f xs) \<Longrightarrow> k \<in> set xs \<Longrightarrow> filter (\<lambda>x. f k = f x) xs = [k]"
proof (induction xs)
  case Nil
  then show ?case by simp
next
  case (Cons a xs)
  show ?case
  proof (cases "a = k")
    case True
    with Cons.prems have "\<forall>x\<in>set xs. f k \<noteq> f x" by auto
    then have "filter (\<lambda>x. f k = f x) xs = []" by (simp add: filter_empty_conv)
    with True show ?thesis by simp
  next
    case False
    with Cons.prems have k: "k \<in> set xs" by simp
    have "f k \<in> f ` set xs" using k by (rule imageI)
    with Cons.prems have "f k \<noteq> f a" by auto
    with Cons k show ?thesis by simp
  qed
qed

lemma sort_key_permutation:
  assumes "mset ys = mset xs" and "sorted (map f xs)" and "distinct (map f xs)"
  shows "sort_key f ys = xs"
proof (rule properties_for_sort_key)
  show "mset xs = mset ys" using assms(1) by simp
  show "sorted (map f xs)" by (rule assms(2))
  fix k assume k: "k \<in> set xs"
  have "mset (map f ys) = mset (map f xs)" using assms(1) by simp
  then have dy: "distinct (map f ys)" using assms(3) by (metis mset_eq_imp_distinct_iff)
  have ky: "k \<in> set ys" using k assms(1) by (metis mset_eq_setD)
  show "filter (\<lambda>x. f k = f x) xs = filter (\<lambda>x. f k = f x) ys"
    using filter_key_singleton [OF assms(3) k] filter_key_singleton [OF dy ky] by simp
qed

lemma map_fst_submit_all: "map fst (submit_all ev tpc sts) = [0..<length sts]"
  by (simp add: submit_all_def enumerate_eq_zip comp_def case_prod_beta)

lemma length_submit_all: "length (submit_all ev tpc sts) = length sts"
  by (simp add: submit_all_def)

lemma nth_submit_all:
  "i < length sts \<Longrightarrow> submit_all ev tpc sts ! i
     = (i, sts ! i, research_subtopic ev (''Researcher '' @ str_nat (i + 1)) (sts ! i) tpc)"
  by (simp add: submit_all_def nth_enumerate_eq)

lemma research_in_parallel_result:
  assumes "mset (as_completed ev (submit_all ev tpc sts)) = mset (submit_all ev tpc sts)"
      and cbr: "cb \<longrightarrow> (\<forall>k p m. callback_raises ev k p m = None)"
  shows "fst (research_in_parallel ev tpc sts cb w) = map task_finding (submit_all ev tpc sts)"
proof -
  let ?fs = "submit_all ev tpc sts"
  let ?g = "\<lambda>fu::future. (fst fu, task_finding fu)"
  have m: "mset (map ?g (as_completed ev ?fs)) = mset (map ?g ?fs)"
    using assms(1) by simp
  have keys: "map fst (map ?g ?fs) = [0..<length sts]"
    using map_fst_submit_all [of ev tpc sts] by (simp add: comp_def)
  have "sort_key fst (map ?g (as_completed ev ?fs)) = map ?g ?fs"
    by (rule sort_key_permutation [OF m]) (simp_all only: keys sorted_upt distinct_upt)
  then show ?thesis
    by (simp add: research_in_parallel_def Let_def case_prod_beta collect_findings [OF cbr]
          comp_def)
qed

lemma critic_loop_frame:
  assumes "n = nat (max_revisions cfg - it)"
      and "critic_loop cfg ev style tone cb it r w = (Inr r', w')"
  shows "subtopic_findings r' = subtopic_findings r \<and> topic r' = topic r"
  using assms
proof (induction n arbitrary: it r w)
  case 0
  then have "\<not> it < max_revisions cfg" by simp
  from critic_loop_exit [OF this] "0.prems"(2) show ?case by simp
next
  case (Suc n)
  then have lt: "it < max_revisions cfg" by simp
  have n: "n = nat (max_revisions cfg - (it + 1))" using Suc.prems(1) by simp
  obtain res w2 where rv: "review ev r (review_progress cfg cb it w) = (res, w2)"
    by (cases "review ev r (review_progress cfg cb it w)")
  show ?case
  proof (cases res)
    case (Inl e)
    with critic_loop_raise [OF lt] rv Suc.prems(2) show ?thesis by simp
  next
    case (Inr v)
    with rv have rv': "review ev r (review_progress cfg cb it w) = (Inr v, w2)" by simp
    consider (approved) "decision v = ''APPROVED''"
      | (exhausted) "decision v = ''REVISION_NEEDED''" "it + 1 \<ge> max_revisions cfg"
      | (revise) "decision v = ''REVISION_NEEDED''" "it + 1 < max_revisions cfg"
      | (other) "decision v \<noteq> ''APPROVED''" "decision v \<noteq> ''REVISION_NEEDED''"
      by fastforce
    then show ?thesis
    proof cases
      case approved
      from critic_loop_approved [OF lt rv' approved] Suc.prems(2) show ?thesis by auto
    next
      case exhausted
      from critic_loop_exhausted [OF lt rv' exhausted] Suc.prems(2) show ?thesis by auto
    next
      case revise
      obtain res4 w4 where r4: "revise cfg ev r (revision_instructions v) style tone
                                  (revise_progress cfg cb it w2) = (res4, w4)"
        by (cases "revise cfg ev r (revision_instructions v) style tone
                     (revise_progress cfg cb it w2)")
      show ?thesis
      proof (cases res4)
        case (Inl e)
        with critic_loop_revise [OF lt rv' revise] r4 Suc.prems(2) show ?thesis by simp
      next
        case (Inr r1)
        with r4 have r4': "revise cfg ev r (revision_instructions v) style tone
                             (revise_progress cfg cb it w2) = (Inr r1, w4)" by simp
        have "critic_loop cfg ev style tone cb (it + 1) r1 w4 = (Inr r', w')"
          using critic_loop_revise [OF lt rv' revise] r4' Suc.prems(2) by simp
        from Suc.IH [OF n this] revise_result [OF r4'] build_report_fields
        show ?thesis by auto
      qed
    next
      case other
      have "critic_loop cfg ev style tone cb (it + 1) r w2 = (Inr r', w')"
        using critic_loop_other [OF lt rv' other] Suc.prems(2) by simp
      from Suc.IH [OF n this] show ?thesis .
    qed
  qed
qed

lemma run_result:
  assumes "analyze_topic ev tpc = Inr (a, sts)"
      and "run cfg ev tpc style tone cb w = (Inr r, w')"
  shows "sts \<noteq> [] \<and> subtopic_findings r =
           fst (research_in_parallel ev tpc sts cb
                  (update_progress cb 0.2
                     (''Generated '' @ str_nat (length sts) @ '' subtopics. Starting research...'')
                     (update_progress cb 0.1 ''Analyzing topic and generating subtopics...'' w)))"
proof -
  let ?w2 = "update_progress cb 0.2
                     (''Generated '' @ str_nat (length sts) @ '' subtopics. Starting research...'')
                     (update_progress cb 0.1 ''Analyzing topic and generating subtopics...'' w)"
  have ne: "sts \<noteq> []" using assms by (auto simp: run_def Let_def)
  obtain fs w3 where rp: "research_in_parallel ev tpc sts cb ?w2 = (fs, w3)"
    by (cases "research_in_parallel ev tpc sts cb ?w2")
  let ?w4 = "update_progress cb 0.7 ''Synthesizing findings into final report...'' w3"
  obtain res5 w5 where sy: "synthesize cfg ev tpc fs style tone ?w4 = (res5, w5)"
    by (cases "synthesize cfg ev tpc fs style tone ?w4")
  show ?thesis
  proof (cases res5)
    case (Inl e)
    with assms ne rp sy show ?thesis by (simp add: run_def Let_def)
  next
    case (Inr report)
    with sy have sy': "synthesize cfg ev tpc fs style tone ?w4 = (Inr report, w5)" by simp
    have fr: "subtopic_findings report = fs" using synthesize_result [OF sy'] by simp
    show ?thesis
    proof (cases "enable_critic cfg")
      case False
      with assms ne rp sy' have "r = report" by (simp add: run_def Let_def)
      with fr rp ne show ?thesis by simp
    next
      case True
      obtain res6 w6 where cl: "critic_loop cfg ev style tone cb 0 report w5 = (res6, w6)"
        by (cases "critic_loop cfg ev style tone cb 0 report w5")
      show ?thesis
      proof (cases res6)
        case (Inl e)
        with assms ne rp sy' True cl show ?thesis
          by (simp add: run_def Let_def run_critic_loop_def)
      next
        case (Inr final)
        with assms ne rp sy' True cl have "r = final"
          by (simp add: run_def Let_def run_critic_loop_def)
        with cl Inr have "critic_loop cfg ev style tone cb 0 report w5 = (Inr r, w6)" by simp
        from critic_loop_frame [OF refl this] fr rp ne show ?thesis by simp
      qed
    qed
  qed
qed

lemma run_findings_when_callback_returns:
  assumes "analyze_topic ev tpc = Inr (a, sts)"
      and "mset (as_completed ev (submit_all ev tpc sts)) = mset (submit_all ev tpc sts)"
      and "cb \<longrightarrow> (\<forall>k p m. callback_raises ev k p m = None)"
      and "run cfg ev tpc style tone cb w = (Inr r, w')"
  shows "subtopic_findings r = map task_finding (submit_all ev tpc sts)"
  using run_result [OF assms(1,4)] research_in_parallel_result [OF assms(2,3)] by simp

lemmas ex_defs = ex_env_def ex_cfg_def ex_findings_def ex_source_def world0_def ex_report_def
  ex_subtopics_def
lemmas agent_defs = analyze_topic_def parse_subtopic_def synthesize_def build_report_def
  revise_def review_def parse_review_def parse_issue_def parse_insight_def parse_top_source_def
  update_progress_def
lemmas run_defs = run_def research_in_parallel_def submit_all_def enumerate_eq_zip
  run_critic_loop_def critic_loop.simps Let_def upt_rec run_sequential_def

lemma list_of_length_two: "length xs = 2 \<Longrightarrow> xs = [xs ! 0, xs ! 1]"
  by (cases xs; cases "tl xs") auto

lemma map_JStr_inject: "map JStr xs = map JStr ys \<Longrightarrow> xs = ys"
  by (induction xs arbitrary: ys) auto

lemma ex_analyze: "analyze_topic ex_env tpc = Inr (JStr '''', ex_subtopics)"
  by (simp add: ex_defs agent_defs)

text \<open>
  Claim C1 fails on the code. The callback is called inside the \<open>try\<close> block of the
  collection loop, after the result of the task was appended. When the callback raises
  there, the handler written for a failed Researcher appends a placeholder for the same
  subtopic: with two subtopics from the Splitter the report has three findings, two of
  them for the subtopic that completed first.
\<close>

theorem run_repeats_subtopic_after_callback_exception:
  "analyze_topic ex_env_callback_fails ''Renewable energy storage'' = Inr (JStr '''', ex_subtopics)
   \<and> length ex_subtopics = 2
   \<and> map_sum id (map subtopic \<circ> subtopic_findings)
       (fst (run (ex_cfg 2) ex_env_callback_fails ''Renewable energy storage'' ''Technical''
               ''Neutral'' True world0))
     = Inr [''Battery chemistry'', ''Cost trends'', ''Cost trends'']
   \<and> map_sum id (map (length \<circ> sources) \<circ> subtopic_findings)
       (fst (run (ex_cfg 2) ex_env_callback_fails ''Renewable energy storage'' ''Technical''
               ''Neutral'' True world0))
     = Inr [2, 2, 0]
   \<and> map_sum id (metadata \<circ> last \<circ> subtopic_findings)
       (fst (run (ex_cfg 2) ex_env_callback_fails ''Renewable energy storage'' ''Technical''
               ''Neutral'' True world0))
     = Inr [(''error'', JStr ''progress bar closed'')]"
  by (simp add: run_defs ex_defs ex_env_callback_fails_def agent_defs error_finding_def)

text \<open>
  Claim C4. In a report built by \<open>_build_report\<close>, \<open>all_sources\<close> is the
  concatenation of the sources of all findings, in order, with every source dropped
  whose URL an earlier source has: no two entries share a URL, every URL of the findings
  occurs, and each entry is the first source with its URL.
\<close>

theorem all_sources_deduplicated:
  assumes "build_report mdl now tpc findings d = Inr r"
  shows "all_sources r = first_by_url (concat (map sources findings))
       \<and> distinct (map url (all_sources r))
       \<and> url ` set (all_sources r) = url ` set (concat (map sources findings))
       \<and> (\<forall>s\<in>set (all_sources r).
             find (\<lambda>t. url t = url s) (concat (map sources findings)) = Some s)"
proof -
  have eq: "all_sources r = first_by_url (concat (map sources findings))"
    using build_report_fields [OF assms]
    by (simp add: unique_loop_first_by_url extend_all_concat)
  show ?thesis
    unfolding eq using distinct_first_by_url set_first_by_url first_by_url_is_first by blast
qed

theorem all_sources_deduplicated_witness:
  "\<exists>r. build_report ''gpt-4-turbo-preview'' ''2025-01-01T00:00:00'' ''Renewable energy storage''
          [ex_findings ''Battery chemistry'', ex_findings ''Cost trends''] (JObj []) = Inr r
      \<and> map url (all_sources r) = [''https://shared.example'', ''Battery chemistry'', ''Cost trends'']"
proof -
  obtain r where
    b: "build_report ''gpt-4-turbo-preview'' ''2025-01-01T00:00:00'' ''Renewable energy storage''
          [ex_findings ''Battery chemistry'', ex_findings ''Cost trends''] (JObj []) = Inr r"
    by (simp add: build_report_def Let_def)
  from all_sources_deduplicated [OF b]
  have "all_sources r = first_by_url (concat (map sources
          [ex_findings ''Battery chemistry'', ex_findings ''Cost trends'']))"
    by blast
  then have "map url (all_sources r)
             = [''https://shared.example'', ''Battery chemistry'', ''Cost trends'']"
    by (simp add: ex_findings_def ex_source_def)
  with b show ?thesis by (intro exI conjI)
qed

theorem revise_frame_witness:
  "\<exists>r' w'. revise (ex_cfg 2) ex_env_revising ex_fresh_report ''Cite more sources'' ''Technical''
              ''Neutral'' (world0\<lparr>synthesize_calls := 1\<rparr>) = (Inr r', w')
          \<and> topic r' = ''Renewable energy storage''
          \<and> subtopic_findings r' = [ex_findings ''Battery chemistry'']
          \<and> revision_count r' = 1
          \<and> executive_summary r' = ''Revised summary''
          \<and> consensus_points r' = [''Costs fall'']
          \<and> conflicts_and_gaps r' = ''''
          \<and> overall_insights r' = []
          \<and> map url (top_sources r') = [''https://shared.example'']
          \<and> critic_review r' = None"
proof -
  let ?w = "world0\<lparr>synthesize_calls := 1\<rparr>"
  let ?kvs = "[(''executive_summary'', JStr ''Revised summary''),
               (''consensus_points'', JArr [JStr ''Costs fall'']),
               (''top_sources'', JArr [JObj [(''url'', JStr ''https://shared.example'')]])]"
  obtain r' w' where
    h: "revise (ex_cfg 2) ex_env_revising ex_fresh_report ''Cite more sources'' ''Technical''
          ''Neutral'' ?w = (Inr r', w')"
    by (simp add: ex_defs
        ex_env_revising_def ex_env_clock_def ex_fresh_report_def agent_defs Let_def)
  have reply: "revise_llm ex_env_revising (revise_calls ?w) ex_fresh_report ''Cite more sources''
                 ''Technical'' ''Neutral'' = JsonDoc (JObj ?kvs)"
    by (simp add: ex_env_revising_def)
  from revise_frame [OF h] have f:
    "topic r' = topic ex_fresh_report" "subtopic_findings r' = subtopic_findings ex_fresh_report"
    "revision_count r' = revision_count ex_fresh_report + 1" "critic_review r' = None"
    by blast+
  from revise_frame [OF h] reply have g:
    "dict_get ?kvs ''executive_summary'' (JStr '''') = JStr (executive_summary r')"
    "dict_get ?kvs ''consensus_points'' (JArr []) = JArr (map JStr (consensus_points r'))"
    "dict_get ?kvs ''conflicts_and_gaps'' (JStr '''') = JStr (conflicts_and_gaps r')"
    "\<forall>xs. dict_get ?kvs ''overall_insights'' (JArr []) = JArr xs \<longrightarrow>
            for_each parse_insight xs = Inr (overall_insights r')"
    "\<forall>xs. dict_get ?kvs ''top_sources'' (JArr []) = JArr xs \<longrightarrow>
            for_each parse_top_source (take 5 xs) = Inr (top_sources r')"
    by auto
  have f': "topic r' = ''Renewable energy storage''"
    "subtopic_findings r' = [ex_findings ''Battery chemistry'']" "revision_count r' = 1"
    using f by (simp_all add: ex_fresh_report_def)
  have g1: "executive_summary r' = ''Revised summary''"
    using g(1) by (simp add: dict_get_def)
  have "map JStr (consensus_points r') = map JStr [''Costs fall'']"
    using g(2) by (simp add: dict_get_def)
  then have g2: "consensus_points r' = [''Costs fall'']"
    by (rule map_JStr_inject)
  have g3: "conflicts_and_gaps r' = ''''"
    using g(3) by (simp add: dict_get_def)
  have g4: "overall_insights r' = []"
    using g(4) by (simp add: dict_get_def)
  have "Inr (top_sources r') = for_each parse_top_source
          (take 5 [JObj [(''url'', JStr ''https://shared.example'')]])"
    using g(5) by (simp add: dict_get_def)
  then have g5: "map url (top_sources r') = [''https://shared.example'']"
    by (simp add: parse_top_source_def)
  from h f' g1 g2 g3 g4 g5 f(4) show ?thesis by (intro exI conjI)
qed

text \<open>
  Claim C8 as stated fails where it says that only the synthesis-derived fields are
  rebuilt. The metadata is built again: a report fresh from \<open>synthesize\<close> comes back
  from \<open>revise\<close> with the timestamp of the revision. The attached review is not kept:
  a report that carries a review comes back without one.
\<close>

theorem revise_rebuilds_other_fields_counterexample:
  "synthesize (ex_cfg 2) ex_env_clock ''Renewable energy storage''
     [ex_findings ''Battery chemistry''] ''Technical'' ''Neutral'' world0
     = (Inr ex_fresh_report, world0\<lparr>synthesize_calls := 1\<rparr>)
   \<and> report_metadata ex_fresh_report
     = [(''timestamp'', JStr ''2025-01-01T00:00:00''), (''model'', JStr ''gpt-4-turbo-preview''),
        (''num_researchers'', JInt 1), (''total_sources'', JInt 2)]
   \<and> map_sum id report_metadata
       (fst (revise (ex_cfg 2) ex_env_clock ex_fresh_report ''Cite more sources'' ''Technical''
               ''Neutral'' (world0\<lparr>synthesize_calls := 1\<rparr>)))
     = Inr [(''timestamp'', JStr ''2025-01-01T00:00:01''), (''model'', JStr ''gpt-4-turbo-preview''),
            (''num_researchers'', JInt 1), (''total_sources'', JInt 2)]
   \<and> map_sum id critic_review
       (fst (revise (ex_cfg 2) ex_env_clock (ex_fresh_report\<lparr>critic_review := Some ex_review\<rparr>)
               ''Cite more sources'' ''Technical'' ''Neutral'' (world0\<lparr>synthesize_calls := 1\<rparr>)))
     = Inr None"
  by (simp add: ex_defs
      ex_env_clock_def ex_fresh_report_def ex_review_def agent_defs Let_def str_nat.simps)







lemma try_body_counters:
  assumes "try_body ev cb n fu acc c w = (x, acc', c', w')"
  shows "critic_calls w' = critic_calls w \<and> revise_calls w' = revise_calls w
       \<and> synthesize_calls w' = synthesize_calls w \<and> research_calls w' = research_calls w"
proof -
  obtain idx st outcome where fu: "fu = (idx, st, outcome)" by (cases fu)
  show ?thesis
    using assms unfolding fu
    by (cases outcome) (auto simp: update_progress_def split: if_splits)
qed

lemma collect_counters:
  "critic_calls (snd (collect ev cb n fs acc c w)) = critic_calls w
   \<and> revise_calls (snd (collect ev cb n fs acc c w)) = revise_calls w
   \<and> synthesize_calls (snd (collect ev cb n fs acc c w)) = synthesize_calls w
   \<and> research_calls (snd (collect ev cb n fs acc c w)) = research_calls w"
proof (induction fs arbitrary: acc c w)
  case Nil
  then show ?case by simp
next
  case (Cons fu fs)
  obtain idx st outcome where fu: "fu = (idx, st, outcome)" by (cases fu)
  obtain x acc' c' w' where t: "try_body ev cb n (idx, st, outcome) acc c w = (x, acc', c', w')"
    by (cases "try_body ev cb n (idx, st, outcome) acc c w")
  from try_body_counters [OF t] Cons show ?case
    unfolding fu by (cases x) (simp_all add: t del: try_body.simps)
qed

lemma research_in_parallel_counters:
  "critic_calls (snd (research_in_parallel ev tpc sts cb w)) = critic_calls w"
  "revise_calls (snd (research_in_parallel ev tpc sts cb w)) = revise_calls w"
  "synthesize_calls (snd (research_in_parallel ev tpc sts cb w)) = synthesize_calls w"
  "research_calls (snd (research_in_parallel ev tpc sts cb w)) = research_calls w + length sts"
  by (simp_all add: research_in_parallel_def Let_def case_prod_beta collect_counters)

text \<open>
  Claim C10. With the Critic enabled and \<open>max_revisions \<le> 0\<close> the body of the critic
  loop never runs: \<open>_run_critic_loop\<close> returns its report and leaves the trace as it
  was, so the Critic is never invoked; a report that \<open>run\<close> returns is the one
  \<open>synthesize\<close> returned, with no review attached and revision count 0.
\<close>

theorem critic_loop_skipped_without_budget:
  assumes "enable_critic cfg" and "max_revisions cfg \<le> 0"
  shows "run_critic_loop cfg ev report style tone cb w = (Inr report, w)
       \<and> critic_calls (snd (run cfg ev tpc style tone cb w)) = critic_calls w
       \<and> revise_calls (snd (run cfg ev tpc style tone cb w)) = revise_calls w
       \<and> (\<forall>r. fst (run cfg ev tpc style tone cb w) = Inr r \<longrightarrow>
             critic_review r = None \<and> revision_count r = 0
             \<and> (\<exists>fs w4. fst (synthesize cfg ev tpc fs style tone w4) = Inr r))"
proof -
  have cl: "\<And>rep w0. run_critic_loop cfg ev rep style tone cb w0 = (Inr rep, w0)"
    using assms(2) by (simp add: run_critic_loop_def critic_loop_exit)
  let ?w1 = "update_progress cb 0.1 ''Analyzing topic and generating subtopics...'' w"
  show ?thesis
  proof (cases "analyze_topic ev tpc")
    case (Inl e)
    then show ?thesis using cl by (simp add: run_def Let_def)
  next
    case (Inr p)
    obtain a sts where p: "p = (a, sts)" by (cases p)
    show ?thesis
    proof (cases "sts = []")
      case True
      with Inr p show ?thesis using cl by (simp add: run_def Let_def)
    next
      case False
      let ?w2 = "update_progress cb 0.2
                   (''Generated '' @ str_nat (length sts) @ '' subtopics. Starting research...'')
                   ?w1"
      obtain fs w3 where rp: "research_in_parallel ev tpc sts cb ?w2 = (fs, w3)"
        by (cases "research_in_parallel ev tpc sts cb ?w2")
      have c3: "critic_calls w3 = critic_calls w" "revise_calls w3 = revise_calls w"
        using research_in_parallel_counters(1,2) [of ev tpc sts cb ?w2] rp by simp_all
      let ?w4 = "update_progress cb 0.7 ''Synthesizing findings into final report...'' w3"
      obtain res5 w5 where sy: "synthesize cfg ev tpc fs style tone ?w4 = (res5, w5)"
        by (cases "synthesize cfg ev tpc fs style tone ?w4")
      have c5: "critic_calls w5 = critic_calls w" "revise_calls w5 = revise_calls w"
        using snd_synthesize [of cfg ev tpc fs style tone ?w4] sy c3 by simp_all
      show ?thesis
      proof (cases res5)
        case (Inl e)
        with Inr p False rp sy c5 cl show ?thesis by (simp add: run_def Let_def)
      next
        case (Inr report5)
        with sy have sy': "synthesize cfg ev tpc fs style tone ?w4 = (Inr report5, w5)" by simp
        have run: "run cfg ev tpc style tone cb w
                   = (Inr report5, update_progress cb 1.0 ''Research complete!'' w5)"
          using \<open>analyze_topic ev tpc = Inr p\<close> p False rp sy' assms(1) cl
          by (simp add: run_def Let_def)
        have "fst (synthesize cfg ev tpc fs style tone ?w4) = Inr report5" using sy' by simp
        then have ex: "\<exists>fs w4. fst (synthesize cfg ev tpc fs style tone w4) = Inr report5"
          by blast
        from synthesize_result [OF sy'] ex c5 cl show ?thesis
          unfolding run by simp
      qed
    qed
  qed
qed

theorem critic_loop_skipped_without_budget_witness:
  "enable_critic (ex_cfg 0) \<and> max_revisions (ex_cfg 0) \<le> 0
   \<and> (\<exists>r. fst (run (ex_cfg 0) ex_env ''Renewable energy storage'' ''Technical'' ''Neutral'' True
                  world0) = Inr r
          \<and> critic_review r = None \<and> revision_count r = 0)
   \<and> critic_calls (snd (run (ex_cfg 0) ex_env ''Renewable energy storage'' ''Technical''
                          ''Neutral'' True world0)) = 0"
proof -
  let ?run = "run (ex_cfg 0) ex_env ''Renewable energy storage'' ''Technical'' ''Neutral'' True
                world0"
  have a: "enable_critic (ex_cfg 0)" and b: "max_revisions (ex_cfg 0) \<le> 0"
    by (simp_all add: ex_cfg_def)
  obtain r where r: "fst ?run = Inr r"
    by (simp add: run_defs ex_analyze ex_defs agent_defs)
  from critic_loop_skipped_without_budget [OF a b, of ex_env ex_report "''Technical''"
      "''Neutral''" True world0 "''Renewable energy storage''"] r
  have "critic_review r = None" "revision_count r = 0"
    "critic_calls (snd ?run) = critic_calls world0"
    by simp_all
  moreover have "critic_calls world0 = 0" by (simp add: world0_def)
  ultimately show ?thesis using a b r by simp
qed

lemma run_returns_without_critic:
  assumes "analyze_topic ev tpc = Inr (a, sts)" and "sts \<noteq> []" and "\<not> enable_critic cfg"
      and "\<And>fs' w0. \<exists>r. fst (synthesize cfg ev tpc fs' style tone w0) = Inr r"
  shows "\<exists>r w'. run cfg ev tpc style tone cb w = (Inr r, w')"
proof -
  let ?w2 = "update_progress cb 0.2
               (''Generated '' @ str_nat (length sts) @ '' subtopics. Starting research...'')
               (update_progress cb 0.1 ''Analyzing topic and generating subtopics...'' w)"
  obtain fs w3 where rp: "research_in_parallel ev tpc sts cb ?w2 = (fs, w3)"
    by (cases "research_in_parallel ev tpc sts cb ?w2")
  let ?w4 = "update_progress cb 0.7 ''Synthesizing findings into final report...'' w3"
  obtain r where "fst (synthesize cfg ev tpc fs style tone ?w4) = Inr r"
    using assms(4) by blast
  then obtain w5 where sy: "synthesize cfg ev tpc fs style tone ?w4 = (Inr r, w5)"
    by (cases "synthesize cfg ev tpc fs style tone ?w4") simp
  have "run cfg ev tpc style tone cb w
          = (Inr r, update_progress cb 1.0 ''Research complete!'' w5)"
    using assms(1,2,3) rp sy by (simp add: run_def Let_def)
  then show ?thesis by (intro exI)
qed

text \<open>
  Claim C3, as amended. For every batch of subtopics and every order of completion, with
  no callback or with a callback that returns from each completion notice, the batch
  returns one findings value for each subtopic, at the position of the subtopic: the
  value its Researcher returned, or, if the Researcher raised \<open>e\<close>, a placeholder with
  no sources, no key insights and the metadata entry \<open>error\<close> equal to \<open>str(e)\<close>
  (empty when the exception has no message). No exception of a Researcher leaves the
  batch: when the Splitter and the Synthesizer return and the Critic is disabled,
  \<open>run\<close> returns a report, and the report carries these findings, whatever the
  Researchers raised.
\<close>

theorem research_in_parallel_contains_failure:
  assumes "mset (as_completed ev (submit_all ev tpc sts)) = mset (submit_all ev tpc sts)"
      and "i < length sts"
      and "cb \<longrightarrow> (\<forall>k p m. callback_raises ev k p m = None)"
  shows "length (fst (research_in_parallel ev tpc sts cb w)) = length sts
       \<and> (\<forall>result. research_subtopic ev (''Researcher '' @ str_nat (i + 1)) (sts ! i) tpc
                       = Inr result
            \<longrightarrow> fst (research_in_parallel ev tpc sts cb w) ! i = result)
       \<and> (\<forall>e. research_subtopic ev (''Researcher '' @ str_nat (i + 1)) (sts ! i) tpc = Inl e
            \<longrightarrow> sources (fst (research_in_parallel ev tpc sts cb w) ! i) = []
              \<and> key_insights (fst (research_in_parallel ev tpc sts cb w) ! i) = []
              \<and> map_of (metadata (fst (research_in_parallel ev tpc sts cb w) ! i)) ''error''
                  = Some (JStr (str_exn e))
              \<and> subtopic (fst (research_in_parallel ev tpc sts cb w) ! i) = name (sts ! i))
       \<and> (analyze_topic ev tpc = Inr (a, sts) \<and> \<not> enable_critic cfg
            \<and> (\<forall>fs' w0. \<exists>r. fst (synthesize cfg ev tpc fs' style tone w0) = Inr r)
            \<longrightarrow> (\<exists>r. fst (run cfg ev tpc style tone cb w) = Inr r
                   \<and> subtopic_findings r = fst (research_in_parallel ev tpc sts cb w)))"
proof -
  have res: "\<And>w0. fst (research_in_parallel ev tpc sts cb w0)
                   = map task_finding (submit_all ev tpc sts)"
    by (rule research_in_parallel_result [OF assms(1,3)])
  have nth: "fst (research_in_parallel ev tpc sts cb w) ! i
             = task_finding (i, sts ! i,
                 research_subtopic ev (''Researcher '' @ str_nat (i + 1)) (sts ! i) tpc)"
    unfolding res using assms(2) by (simp add: length_submit_all nth_submit_all)
  have batch: "length (fst (research_in_parallel ev tpc sts cb w)) = length sts
       \<and> (\<forall>result. research_subtopic ev (''Researcher '' @ str_nat (i + 1)) (sts ! i) tpc
                       = Inr result
            \<longrightarrow> fst (research_in_parallel ev tpc sts cb w) ! i = result)
       \<and> (\<forall>e. research_subtopic ev (''Researcher '' @ str_nat (i + 1)) (sts ! i) tpc = Inl e
            \<longrightarrow> sources (fst (research_in_parallel ev tpc sts cb w) ! i) = []
              \<and> key_insights (fst (research_in_parallel ev tpc sts cb w) ! i) = []
              \<and> map_of (metadata (fst (research_in_parallel ev tpc sts cb w) ! i)) ''error''
                  = Some (JStr (str_exn e))
              \<and> subtopic (fst (research_in_parallel ev tpc sts cb w) ! i) = name (sts ! i))"
    unfolding nth unfolding res
    by (simp add: length_submit_all task_finding_def error_finding_def)
  have ne: "sts \<noteq> []" using assms(2) by auto
  have run: "analyze_topic ev tpc = Inr (a, sts) \<and> \<not> enable_critic cfg
            \<and> (\<forall>fs' w0. \<exists>r. fst (synthesize cfg ev tpc fs' style tone w0) = Inr r)
            \<longrightarrow> (\<exists>r. fst (run cfg ev tpc style tone cb w) = Inr r
                   \<and> subtopic_findings r = fst (research_in_parallel ev tpc sts cb w))"
  proof (intro impI, elim conjE)
    assume an: "analyze_topic ev tpc = Inr (a, sts)" and nc: "\<not> enable_critic cfg"
      and sy: "\<forall>fs' w0. \<exists>r. fst (synthesize cfg ev tpc fs' style tone w0) = Inr r"
    from sy have sy': "\<And>fs' w0. \<exists>r. fst (synthesize cfg ev tpc fs' style tone w0) = Inr r"
      by blast
    from run_returns_without_critic [OF an ne nc sy', of cb w]
    obtain r w' where r: "run cfg ev tpc style tone cb w = (Inr r, w')" by blast
    from run_findings_when_callback_returns [OF an assms(1,3) r]
    have "subtopic_findings r = fst (research_in_parallel ev tpc sts cb w)"
      unfolding res .
    with r show "\<exists>r. fst (run cfg ev tpc style tone cb w) = Inr r
                   \<and> subtopic_findings r = fst (research_in_parallel ev tpc sts cb w)"
      by simp
  qed
  from batch run show ?thesis by (intro conjI) blast+
qed

theorem research_in_parallel_contains_failure_witness:
  "research_subtopic ex_env_failing ''Researcher 2'' (ex_subtopics ! 1) ''Renewable energy storage''
     = Inl (Exn OtherError '''')
   \<and> sources (fst (research_in_parallel ex_env_failing ''Renewable energy storage''
                      ex_subtopics True world0) ! 1) = []
   \<and> fst (research_in_parallel ex_env_failing ''Renewable energy storage''
            ex_subtopics True world0) ! 0 = ex_findings ''Battery chemistry''
   \<and> (\<exists>r. fst (run ((ex_cfg 2)\<lparr>enable_critic := False\<rparr>) ex_env_failing
                  ''Renewable energy storage'' ''Technical'' ''Neutral'' True world0) = Inr r
          \<and> length (subtopic_findings r) = 2)"
proof -
  let ?tpc = "''Renewable energy storage''"
  let ?cfg = "(ex_cfg 2)\<lparr>enable_critic := False\<rparr>"
  have perm: "mset (as_completed ex_env_failing (submit_all ex_env_failing ?tpc ex_subtopics))
              = mset (submit_all ex_env_failing ?tpc ex_subtopics)"
    by (simp add: ex_env_failing_def ex_env_def)
  have cbr: "True \<longrightarrow> (\<forall>k p m. callback_raises ex_env_failing k p m = None)"
    by (simp add: ex_env_failing_def ex_env_def)
  have l0: "0 < length ex_subtopics" and l1: "1 < length ex_subtopics"
    by (simp_all add: ex_subtopics_def)
  have r1: "research_subtopic ex_env_failing (''Researcher '' @ str_nat (1 + 1))
              (ex_subtopics ! 1) ?tpc = Inl (Exn OtherError '''')"
    by (simp add: ex_env_failing_def ex_env_def ex_subtopics_def)
  have r0: "research_subtopic ex_env_failing (''Researcher '' @ str_nat (0 + 1))
              (ex_subtopics ! 0) ?tpc = Inr (ex_findings ''Battery chemistry'')"
    by (simp add: ex_env_failing_def ex_env_def ex_subtopics_def)
  have r1': "research_subtopic ex_env_failing ''Researcher 2'' (ex_subtopics ! 1) ?tpc
               = Inl (Exn OtherError '''')"
    by (simp add: ex_env_failing_def ex_env_def ex_subtopics_def)
  have an: "analyze_topic ex_env_failing ?tpc = Inr (JStr '''', ex_subtopics)"
    by (simp add: ex_defs ex_env_failing_def agent_defs)
  have nc: "\<not> enable_critic ?cfg" by simp
  have sy: "\<forall>fs' w0. \<exists>r. fst (synthesize ?cfg ex_env_failing ?tpc fs' ''Technical'' ''Neutral'' w0)
                            = Inr r"
    by (simp add: ex_defs ex_env_failing_def agent_defs Let_def)
  note T = research_in_parallel_contains_failure [OF perm l1 cbr,
      where w = world0 and a = "JStr ''''" and cfg = ?cfg and style = "''Technical''"
        and tone = "''Neutral''"]
  from T r1
  have a: "sources (fst (research_in_parallel ex_env_failing ?tpc ex_subtopics True world0) ! 1)
             = []"
    by blast
  from research_in_parallel_contains_failure [OF perm l0 cbr, of world0] r0
  have b: "fst (research_in_parallel ex_env_failing ?tpc ex_subtopics True world0) ! 0
             = ex_findings ''Battery chemistry''"
    by blast
  from T have len: "length (fst (research_in_parallel ex_env_failing ?tpc ex_subtopics True world0))
                 = length ex_subtopics"
    by (rule conjunct1)
  from T an nc sy obtain r where
    r: "fst (run ?cfg ex_env_failing ?tpc ''Technical'' ''Neutral'' True world0) = Inr r"
    and fr: "subtopic_findings r
             = fst (research_in_parallel ex_env_failing ?tpc ex_subtopics True world0)"
    by blast
  have "length (subtopic_findings r) = 2"
    unfolding fr len by (simp add: ex_subtopics_def)
  with r have c: "\<exists>r. fst (run ?cfg ex_env_failing ?tpc ''Technical'' ''Neutral'' True world0)
                     = Inr r \<and> length (subtopic_findings r) = 2"
    by (intro exI conjI)
  from r1' a b c show ?thesis by (intro conjI)
qed

text \<open>
  Claim C3 as stated fails where it asks for a non-empty error entry: a Researcher that
  raises an exception without a message leaves the entry \<open>error\<close> equal to the empty
  string.
\<close>

theorem research_in_parallel_error_entry_counterexample:
  "research_subtopic ex_env_failing ''Researcher 2'' (ex_subtopics ! 1) ''Renewable energy storage''
     = Inl (Exn OtherError '''')
   \<and> metadata (fst (research_in_parallel ex_env_failing ''Renewable energy storage''
                       ex_subtopics False world0) ! 1) = [(''error'', JStr '''')]"
  by (simp add: research_in_parallel_def submit_all_def enumerate_eq_zip Let_def upt_rec
        error_finding_def ex_defs ex_env_failing_def)

text \<open>
  Claim C6 fails on the code: in a run whose Researchers all succeed the callback gets
  0.8 when the last task completes and 0.7 next, when the synthesis starts.
  (\<open>run_sequential\<close> reports 0.8 at that point.)
\<close>

theorem run_progress_decreases:
  "map fst (progress_log (snd (run (ex_cfg 2) ex_env ''Renewable energy storage'' ''Technical''
                                 ''Neutral'' True world0)))
     = [0.1, 0.2, 0.5, 0.8, 0.7, 0.85, 0.85, 0.9, 0.95, 1]
   \<and> \<not> sorted (map fst (progress_log (snd (run (ex_cfg 2) ex_env ''Renewable energy storage''
                                              ''Technical'' ''Neutral'' True world0))))"
proof -
  have "map fst (progress_log (snd (run (ex_cfg 2) ex_env ''Renewable energy storage''
                                      ''Technical'' ''Neutral'' True world0)))
        = [0.1, 0.2, 0.5, 0.8, 0.7, 0.85, 0.85, 0.9, 0.95, 1]"
    by (simp add: run_defs ex_analyze ex_defs agent_defs)
  then show ?thesis by simp
qed

text \<open>
  Claim C7 fails on the code for \<open>run_sequential\<close>: when the Splitter returns no
  subtopic, \<open>run\<close> raises its ValueError before any Researcher or the Synthesizer is
  invoked, but \<open>run_sequential\<close> has no such check, invokes the Synthesizer on the
  empty list of findings and returns its report.
\<close>

theorem run_sequential_accepts_no_subtopics:
  "run (ex_cfg 2) ex_env_no_subtopics ''Renewable energy storage'' ''Technical'' ''Neutral''
     True world0
     = (Inl (Exn ValueError ''Topic splitter failed to generate subtopics''),
        world0\<lparr>progress_log := [(0.1, ''Analyzing topic and generating subtopics...'')]\<rparr>)
   \<and> map_sum id subtopic_findings
       (fst (run_sequential (ex_cfg 2) ex_env_no_subtopics ''Renewable energy storage''
               ''Technical'' ''Neutral'' True world0)) = Inr []
   \<and> synthesize_calls
       (snd (run_sequential (ex_cfg 2) ex_env_no_subtopics ''Renewable energy storage''
               ''Technical'' ''Neutral'' True world0)) = 1
   \<and> research_calls
       (snd (run_sequential (ex_cfg 2) ex_env_no_subtopics ''Renewable energy storage''
               ''Technical'' ''Neutral'' True world0)) = 0"
  by (simp add: run_defs ex_defs ex_env_no_subtopics_def agent_defs)
























end
